theory Spec2Isabelle
  imports Main "HOL-Library.Word"
begin

section \<open>The batch of rapids\_triton/batch/batch.hpp\<close>

text \<open>
  The header defines one class template, \<open>Batch\<close>, with a constructor and the members
  \<open>get_input\<close>, \<open>get_output\<close>, \<open>stream\<close>, \<open>finalize\<close>, \<open>get_input_shape\<close> and
  \<open>get_output_shape\<close>. Everything else it names lives in other headers: Triton's
  \<open>BackendInputCollector\<close> and \<open>BackendOutputResponder\<close>, the CUDA runtime, and the
  repository's own \<open>Buffer\<close>, \<open>Tensor\<close>, \<open>OutputTensor\<close>, \<open>narrow\<close>, \<open>cuda_check\<close>,
  \<open>construct_responses\<close> and \<open>get_triton_input_shape\<close>. What Triton and CUDA answer is
  a parameter of the model; what the repository's absent headers do is modelled from the
  specification and marked so.

  Two calls in the header do not fit the declarations they name: \<open>get_input\<close> (line 67)
  and \<open>get_output\<close> (line 102) pass \<open>(requests_.begin(), requests_.end(), name)\<close> to
  \<open>get_input_shape\<close> and \<open>get_output_shape\<close>, which the class declares with the single
  parameter \<open>std::string const&\<close> (lines 130 and 138) and never otherwise. Both are
  member templates, so the header is accepted as long as neither is instantiated, and
  neither can be. The model keeps the calls as they are written.
\<close>

subsection \<open>Scalar types\<close>

text \<open>\<open>std::size_t\<close> is an unsigned 64-bit integer: sums and products wrap around.\<close>
type_synonym size_t = "64 word"

text \<open>\<open>int64_t\<close>, the coordinate type of Triton's shapes, read with \<open>sint\<close>.\<close>
type_synonym int64_t = "64 word"

type_synonym request_size_t = "32 word"

text \<open>Device ids are only compared, never computed with.\<close>
type_synonym device_id_t = int

text \<open>A stream handle, a raw data pointer (0 is \<open>nullptr\<close>) and a CUDA status (0 is \<open>cudaSuccess\<close>).\<close>
type_synonym cudaStream_t = nat
type_synonym addr = nat
type_synonym cudaError_t = nat

text \<open>Modelled from the spec: rapids\_triton/memory/types.hpp is missing; the memory spaces
  are host, pinned host and device.\<close>
datatype MemoryType = HostMemory | PinnedHostMemory | DeviceMemory

text \<open>The error code of \<open>TritonException\<close>; the header only ever throws \<open>Error::Internal\<close>.\<close>
datatype Error = Internal | Unknown

text \<open>
  Every way a call can end without a value. \<open>TritonException\<close> is what batch.hpp throws
  itself. \<open>IncompatibleShape\<close> (with the offending request index) and \<open>AllocationFailure\<close>
  are the error kinds the specification gives to the absent shape resolver and to buffer
  and response allocation. \<open>InvalidNarrowing\<close> is the failure of \<open>narrow\<close>, \<open>CudaFailure\<close>
  the one of \<open>cuda_check\<close>, and \<open>NullDereference\<close> stands for dereferencing the null
  pointer that \<open>FindBatchOutput\<close> returns for an unknown name. \<open>NoMatchingFunction\<close>
  stands for a call whose arguments fit no declaration of the function called: a member
  that contains such a call has no instantiation, so it ends there, having done nothing.
\<close>
datatype exn =
    TritonException Error string
  | IncompatibleShape nat
  | AllocationFailure
  | InvalidNarrowing
  | CudaFailure cudaError_t
  | NullDereference
  | NoMatchingFunction

subsection \<open>Requests, responses, model metadata\<close>

text \<open>A request handle, seen through the one thing the batch asks of it: the shape of its
  shard of a named input.\<close>
record TRITONBACKEND_Request =
  input_shape :: "string \<Rightarrow> size_t list"

text \<open>A response handle. The member \<open>responses\<close> holds pointers, so a slot is \<open>None\<close> when null.\<close>
type_synonym TRITONBACKEND_Response = nat

text \<open>\<open>FindBatchOutput(name)\<close> followed by \<open>OutputShape()\<close>; \<open>None\<close> is the null pointer.\<close>
record ModelState =
  FindBatchOutput :: "string \<Rightarrow> int64_t list option"

record ModelInstanceState =
  EnablePinnedInput :: bool
  EnablePinnedOutput :: bool
  config_max_batch_size :: int

subsection \<open>Buffers and tensors\<close>

text \<open>
  rapids\_triton/memory/buffer.hpp is missing, and with it what the class \<open>Buffer\<close>
  makes of its constructor arguments: which device a buffer built without a device id is
  on, and whether \<open>size\<close> counts bytes or elements. The header builds buffers in two
  places and nothing is assumed beyond that: a buffer is the constructor call that made
  it, with the arguments as written. \<open>NonOwning data size memory_type stream\<close> is the
  call of lines 86 to 91, which passes no device id; \<open>Owning size memory_type device_id
  stream\<close> is the call of line 105.
\<close>
datatype Buffer =
    NonOwning addr size_t MemoryType cudaStream_t
  | Owning size_t MemoryType device_id_t cudaStream_t

record Tensor =
  shape :: "size_t list"
  buffer :: Buffer

text \<open>\<open>OutputTensor(shape, buffer, responder, name)\<close>: the responder is shared with the
  batch, so the tensor holds no responder state of its own.\<close>
record OutputTensor =
  out_shape :: "size_t list"
  out_buffer :: Buffer
  out_name :: string

subsection \<open>Triton's input collector and output responder\<close>

record ProcessTensor_args =
  input_name :: string
  buffer_byte_size :: size_t
  allowed_input_types :: "(MemoryType \<times> device_id_t) list"

text \<open>The four out-parameters of \<open>ProcessTensor\<close>.\<close>
record ProcessTensor_outs =
  dst_buffer :: addr
  dst_buffer_byte_size :: size_t
  dst_memory_type :: MemoryType
  dst_memory_type_id :: device_id_t

text \<open>The collector is known to the batch by how it was built and by the calls made on it.\<close>
record BackendInputCollector =
  pinned_input :: bool
  calls :: "ProcessTensor_args list"

text \<open>
  What Triton's collector does on a \<open>ProcessTensor\<close> call is a parameter. The collector
  was built from the request array and the address of the batch's response vector (lines
  46 to 53), so its answer may depend on its own state, on the requests, on the response
  slots as they are when it is called, on the arguments and on the initial values of the
  out-parameters. It gives the final values of the out-parameters and the indices of the
  response slots it sets to null (it answers a failed request through the vector).
\<close>
type_synonym ProcessTensor_fn =
  "BackendInputCollector \<Rightarrow> TRITONBACKEND_Request list \<Rightarrow> TRITONBACKEND_Response option list \<Rightarrow>
   ProcessTensor_args \<Rightarrow> ProcessTensor_outs \<Rightarrow> ProcessTensor_outs \<times> nat list"

text \<open>
  Modelled from the spec: Triton's responder is missing; \<open>Finalize\<close> "returns a boolean
  indicating whether any asynchronous work was enqueued". The responder therefore carries
  that one flag, unset when it is built and set by a scatter that enqueues a copy.
\<close>
record BackendOutputResponder =
  responder_max_batch_size :: int
  pinned_output :: bool
  need_sync :: bool

text \<open>Modelled from the spec: the responder's scatter of one output, which an
  \<open>OutputTensor\<close> triggers; \<open>enqueues_copy\<close> tells whether it enqueued asynchronous work.\<close>
definition responder_ProcessTensor :: "bool \<Rightarrow> BackendOutputResponder \<Rightarrow> BackendOutputResponder" where
  "responder_ProcessTensor enqueues_copy r = r\<lparr>need_sync := need_sync r \<or> enqueues_copy\<rparr>"

text \<open>Modelled from the spec: \<open>Finalize\<close> reports whether asynchronous work was enqueued.\<close>
definition responder_Finalize :: "BackendOutputResponder \<Rightarrow> bool" where
  "responder_Finalize r = need_sync r"

text \<open>Setting the listed slots of the shared response vector to null; its length stays.\<close>
definition null_slots :: "nat list \<Rightarrow> 'a option list \<Rightarrow> 'a option list" where
  "null_slots failed rs = map (\<lambda>(i, r). if i \<in> set failed then None else r) (enumerate 0 rs)"

subsection \<open>The batch\<close>

text \<open>The private members of \<open>Batch\<close> (the source writes them with a trailing underscore,
  which a HOL name cannot end in, so they carry the prefix \<open>batch\<close> here), and \<open>sync_log\<close>,
  a ghost field listing the streams on which \<open>cudaStreamSynchronize\<close> was called.\<close>
record Batch =
  batch_model_state :: ModelState
  batch_instance_state :: ModelInstanceState
  batch_requests :: "TRITONBACKEND_Request list"
  batch_responses :: "TRITONBACKEND_Response option list"
  batch_collector :: BackendInputCollector
  batch_responder :: BackendOutputResponder
  batch_stream :: cudaStream_t
  sync_log :: "cudaStream_t list"

text \<open>
  Modelled from the spec: rapids\_triton/triton/responses.hpp is missing; construction
  "allocates one response slot per request", and "allocation failure for any slot is fatal
  to Batch construction as a whole". \<open>response_new i\<close> is Triton's answer for request \<open>i\<close>.
\<close>
definition construct_responses ::
  "(nat \<Rightarrow> TRITONBACKEND_Response option) \<Rightarrow> TRITONBACKEND_Request list \<Rightarrow>
   exn + TRITONBACKEND_Response option list" where
  "construct_responses response_new requests =
     (let slots = map response_new [0 ..< length requests]
      in if None \<in> set slots then Inl AllocationFailure else Inr slots)"

text \<open>The constructor. \<open>raw_requests\<close> and \<open>count\<close> are the array and the number of handles
  copied from it; \<open>output_shape\<close> and \<open>max_batch_size\<close> are accepted and not used.\<close>
definition Batch_init ::
  "(nat \<Rightarrow> TRITONBACKEND_Response option) \<Rightarrow> ModelState \<Rightarrow> ModelInstanceState \<Rightarrow>
   TRITONBACKEND_Request list \<Rightarrow> request_size_t \<Rightarrow> size_t list \<Rightarrow> size_t \<Rightarrow> cudaStream_t \<Rightarrow>
   exn + Batch" where
  "Batch_init response_new model_state instance_state raw_requests count output_shape
     max_batch_size stream =
     (let requests = take (unat count) raw_requests
      in case construct_responses response_new requests of
           Inl e \<Rightarrow> Inl e
         | Inr responses \<Rightarrow>
             Inr \<lparr>batch_model_state = model_state,
                  batch_instance_state = instance_state,
                  batch_requests = requests,
                  batch_responses = responses,
                  batch_collector = \<lparr>pinned_input = EnablePinnedInput instance_state, calls = []\<rparr>,
                  batch_responder = \<lparr>responder_max_batch_size = config_max_batch_size instance_state,
                                pinned_output = EnablePinnedOutput instance_state,
                                need_sync = False\<rparr>,
                  batch_stream = stream,
                  sync_log = []\<rparr>)"

subsection \<open>Shapes\<close>

text \<open>\<open>std::reduce(first, last, init, std::multiplies<>())\<close> on \<open>size_t\<close>.\<close>
fun reduce_multiplies :: "size_t list \<Rightarrow> size_t \<Rightarrow> size_t" where
  "reduce_multiplies [] acc = acc"
| "reduce_multiplies (d # ds) acc = reduce_multiplies ds (acc * d)"

text \<open>
  Modelled from the spec: rapids\_triton/triton/input.hpp is missing. Input-side
  resolution "sums the batch axis across requests and requires all non-batch dimensions to
  match exactly across requests; mismatch is a fatal incompatible shapes error naming the
  offending request index", and "an empty request list yields an empty shape sequence".
  The batch axis is the leading dimension. The spec does not say what a shard without any
  dimension contributes; here it adds nothing to the batch axis.
\<close>
definition batch_axis :: "size_t list \<Rightarrow> size_t" where
  "batch_axis s = (case s of [] \<Rightarrow> 0 | d # _ \<Rightarrow> d)"

text \<open>Modelled from the spec: the non-batch dimensions are all but the leading one.\<close>
definition non_batch_dims :: "size_t list \<Rightarrow> size_t list" where
  "non_batch_dims s = drop 1 s"

text \<open>Modelled from the spec: the index of the first request, counted from \<open>i\<close>, whose
  non-batch dimensions are not \<open>base\<close>: "the offending request index".\<close>
fun first_mismatch :: "size_t list \<Rightarrow> size_t list list \<Rightarrow> nat \<Rightarrow> nat option" where
  "first_mismatch base [] i = None"
| "first_mismatch base (s # ss) i =
     (if non_batch_dims s = base then first_mismatch base ss (Suc i) else Some i)"

text \<open>The per-request shapes of a named input, in request order.\<close>
definition input_shapes :: "TRITONBACKEND_Request list \<Rightarrow> string \<Rightarrow> size_t list list" where
  "input_shapes requests name = map (\<lambda>r. input_shape r name) requests"

text \<open>Modelled from the spec: the input-side shape resolver of
  rapids\_triton/triton/input.hpp, which is missing. No request gives the empty shape; a
  request whose non-batch dimensions differ from those of the first one is an error;
  otherwise the batch axes are summed in front of the common non-batch dimensions.\<close>
definition get_triton_input_shape :: "TRITONBACKEND_Request list \<Rightarrow> string \<Rightarrow> exn + size_t list" where
  "get_triton_input_shape requests name =
     (case input_shapes requests name of
        [] \<Rightarrow> Inr []
      | s0 # ss \<Rightarrow>
          (case first_mismatch (non_batch_dims s0) (s0 # ss) 0 of
             Some i \<Rightarrow> Inl (IncompatibleShape i)
           | None \<Rightarrow> Inr (sum_list (map batch_axis (s0 # ss)) # non_batch_dims s0)))"

text \<open>\<open>Batch::get_input_shape\<close>: the resolver is asked only when there is a request.\<close>
definition get_input_shape :: "Batch \<Rightarrow> string \<Rightarrow> exn + size_t list" where
  "get_input_shape b name =
     (if batch_requests b \<noteq> [] then get_triton_input_shape (batch_requests b) name else Inr [])"

text \<open>
  Modelled from the spec: rapids\_triton/utils/narrow.hpp is missing, and the spec has
  shapes as sequences of "non-negative dimension sizes": \<open>narrow<std::size_t>\<close> keeps a
  non-negative \<open>int64_t\<close> and fails on a negative one.
\<close>
definition narrow :: "int64_t \<Rightarrow> exn + size_t" where
  "narrow coord = (if sint coord < 0 then Inl InvalidNarrowing else Inr coord)"

text \<open>\<open>std::transform\<close> with \<open>narrow\<close> into a \<open>back_inserter\<close>: in order, stopping at the
  first coordinate that throws.\<close>
fun transform_narrow :: "int64_t list \<Rightarrow> exn + size_t list" where
  "transform_narrow [] = Inr []"
| "transform_narrow (c # cs) =
     (case narrow c of
        Inl e \<Rightarrow> Inl e
      | Inr d \<Rightarrow> (case transform_narrow cs of Inl e \<Rightarrow> Inl e | Inr ds \<Rightarrow> Inr (d # ds)))"

text \<open>\<open>Batch::get_output_shape\<close>: the shape the model metadata has for the name.\<close>
definition get_output_shape :: "Batch \<Rightarrow> string \<Rightarrow> exn + size_t list" where
  "get_output_shape b name =
     (case FindBatchOutput (batch_model_state b) name of
        None \<Rightarrow> Inl NullDereference
      | Some triton_result \<Rightarrow> transform_narrow triton_result)"

subsection \<open>The calls of the shape members\<close>

text \<open>
  A call is given by its argument list and resolved against the one declaration the class
  has for the name: \<open>get_input_shape(std::string const&)\<close> and
  \<open>get_output_shape(std::string const&)\<close>. It reaches the member with exactly one string
  argument and fits no declaration otherwise. An iterator into the request vector is
  given by its position.
\<close>
datatype call_argument = RequestIterator nat | StringArgument string

fun call_get_input_shape :: "Batch \<Rightarrow> call_argument list \<Rightarrow> exn + size_t list" where
  "call_get_input_shape b [StringArgument name] = get_input_shape b name"
| "call_get_input_shape b args = Inl NoMatchingFunction"

fun call_get_output_shape :: "Batch \<Rightarrow> call_argument list \<Rightarrow> exn + size_t list" where
  "call_get_output_shape b [StringArgument name] = get_output_shape b name"
| "call_get_output_shape b args = Inl NoMatchingFunction"

text \<open>Line 67: \<open>get_input_shape(requests_.begin(), requests_.end(), name)\<close>.\<close>
definition input_shape_call_line_67 :: "Batch \<Rightarrow> string \<Rightarrow> exn + size_t list" where
  "input_shape_call_line_67 b name =
     call_get_input_shape b
       [RequestIterator 0, RequestIterator (length (batch_requests b)), StringArgument name]"

text \<open>Line 102: \<open>get_output_shape(requests_.begin(), requests_.end(), name)\<close>.\<close>
definition output_shape_call_line_102 :: "Batch \<Rightarrow> string \<Rightarrow> exn + size_t list" where
  "output_shape_call_line_102 b name =
     call_get_output_shape b
       [RequestIterator 0, RequestIterator (length (batch_requests b)), StringArgument name]"

subsection \<open>The public members\<close>

text \<open>
  The body of \<open>Batch::get_input<T>\<close>, lines 66 to 97, for any outcome \<open>shape_call\<close> of
  the call in line 67; \<open>sizeof_T\<close> is \<open>sizeof(T)\<close>. \<open>gather_args\<close> are the
  in-arguments handed to \<open>ProcessTensor\<close> (the destination buffer argument is
  \<open>nullptr\<close>), \<open>initial_outs\<close> the values the four out-parameters hold before the call,
  \<open>collector_reply\<close> what the collector then answers. The collector is called before the
  location check, so the batch that is left behind is the same whether the check passes
  or throws.
\<close>
definition gather_args ::
  "size_t \<Rightarrow> size_t list \<Rightarrow> string \<Rightarrow> MemoryType \<Rightarrow> device_id_t \<Rightarrow> ProcessTensor_args" where
  "gather_args sizeof_T shp name memory_type device_id =
     (let size_bytes = sizeof_T * reduce_multiplies shp 1
      in \<lparr>input_name = name, buffer_byte_size = size_bytes,
          allowed_input_types = [(memory_type, device_id)]\<rparr>)"

definition initial_outs :: "MemoryType \<Rightarrow> device_id_t \<Rightarrow> ProcessTensor_outs" where
  "initial_outs memory_type device_id =
     \<lparr>dst_buffer = 0, dst_buffer_byte_size = 0,
      dst_memory_type = memory_type, dst_memory_type_id = device_id\<rparr>"

definition collector_reply ::
  "ProcessTensor_fn \<Rightarrow> size_t \<Rightarrow> size_t list \<Rightarrow> string \<Rightarrow> MemoryType \<Rightarrow> device_id_t \<Rightarrow> Batch \<Rightarrow>
   ProcessTensor_outs \<times> nat list" where
  "collector_reply ProcessTensor sizeof_T shp name memory_type device_id b =
     ProcessTensor (batch_collector b) (batch_requests b) (batch_responses b)
       (gather_args sizeof_T shp name memory_type device_id)
       (initial_outs memory_type device_id)"

definition get_input_with ::
  "(Batch \<Rightarrow> string \<Rightarrow> exn + size_t list) \<Rightarrow> ProcessTensor_fn \<Rightarrow> size_t \<Rightarrow> string \<Rightarrow>
   MemoryType \<Rightarrow> device_id_t \<Rightarrow> Batch \<Rightarrow> (exn + Tensor) \<times> Batch" where
  "get_input_with shape_call ProcessTensor sizeof_T name memory_type device_id b =
     (case shape_call b name of
        Inl e \<Rightarrow> (Inl e, b)
      | Inr shp \<Rightarrow>
          (let args = gather_args sizeof_T shp name memory_type device_id;
               reply = collector_reply ProcessTensor sizeof_T shp name memory_type device_id b;
               reported = fst reply;
               b' = b\<lparr>batch_collector := (batch_collector b)\<lparr>calls := calls (batch_collector b) @ [args]\<rparr>,
                      batch_responses := null_slots (snd reply) (batch_responses b)\<rparr>;
               buf = NonOwning (dst_buffer reported) (dst_buffer_byte_size reported)
                       (dst_memory_type reported) (batch_stream b)
           in if dst_memory_type reported \<noteq> memory_type \<or> dst_memory_type_id reported \<noteq> device_id
              then (Inl (TritonException Internal ''data collected in wrong location''), b')
              else (Inr \<lparr>shape = shp, buffer = buf\<rparr>, b')))"

text \<open>\<open>Batch::get_input<T>\<close> as the header has it: the body, with the call of line 67.\<close>
definition get_input ::
  "ProcessTensor_fn \<Rightarrow> size_t \<Rightarrow> string \<Rightarrow> MemoryType \<Rightarrow> device_id_t \<Rightarrow> Batch \<Rightarrow>
   (exn + Tensor) \<times> Batch" where
  "get_input ProcessTensor sizeof_T name memory_type device_id b =
     get_input_with input_shape_call_line_67 ProcessTensor sizeof_T name memory_type device_id b"

text \<open>
  The body of \<open>Batch::get_output<T>\<close>, lines 100 to 107, for any outcome \<open>shape_call\<close>
  of the call in line 102. \<open>can_allocate\<close> is whether the allocation inside
  \<open>Buffer<T>(buffer_size, memory_type, device_id, stream)\<close> succeeds. No member of the
  batch is written.
\<close>
definition get_output_with ::
  "(Batch \<Rightarrow> string \<Rightarrow> exn + size_t list) \<Rightarrow> (size_t \<Rightarrow> MemoryType \<Rightarrow> device_id_t \<Rightarrow> bool) \<Rightarrow>
   string \<Rightarrow> MemoryType \<Rightarrow> device_id_t \<Rightarrow> Batch \<Rightarrow> (exn + OutputTensor) \<times> Batch" where
  "get_output_with shape_call can_allocate name memory_type device_id b =
     (case shape_call b name of
        Inl e \<Rightarrow> (Inl e, b)
      | Inr shp \<Rightarrow>
          (let buffer_size = reduce_multiplies shp 1
           in if can_allocate buffer_size memory_type device_id
              then (Inr \<lparr>out_shape = shp,
                         out_buffer = Owning buffer_size memory_type device_id (batch_stream b),
                         out_name = name\<rparr>, b)
              else (Inl AllocationFailure, b)))"

text \<open>\<open>Batch::get_output<T>\<close> as the header has it: the body, with the call of line 102.\<close>
definition get_output ::
  "(size_t \<Rightarrow> MemoryType \<Rightarrow> device_id_t \<Rightarrow> bool) \<Rightarrow> string \<Rightarrow> MemoryType \<Rightarrow> device_id_t \<Rightarrow> Batch \<Rightarrow>
   (exn + OutputTensor) \<times> Batch" where
  "get_output can_allocate name memory_type device_id b =
     get_output_with output_shape_call_line_102 can_allocate name memory_type device_id b"

definition stream :: "Batch \<Rightarrow> cudaStream_t" where
  "stream b = batch_stream b"

text \<open>Modelled from the spec: \<open>cuda_check\<close> is missing; a status other than
  \<open>cudaSuccess\<close> is fatal.\<close>
definition cuda_check :: "cudaError_t \<Rightarrow> exn + unit" where
  "cuda_check status = (if status = 0 then Inr () else Inl (CudaFailure status))"

text \<open>
  \<open>Batch::finalize\<close>. \<open>failed\<close> are the response slots Triton's responder sets to null
  while it finalizes, \<open>sync_status\<close> is what \<open>cudaStreamSynchronize\<close> returns if it is
  called.
\<close>
definition finalize :: "nat list \<Rightarrow> cudaError_t \<Rightarrow> Batch \<Rightarrow> (exn + unit) \<times> Batch" where
  "finalize failed sync_status b =
     (let b' = b\<lparr>batch_responses := null_slots failed (batch_responses b)\<rparr>
      in if responder_Finalize (batch_responder b)
         then (cuda_check sync_status, b'\<lparr>sync_log := sync_log b @ [batch_stream b]\<rparr>)
         else (Inr (), b'))"

text \<open>Any number of \<open>get_input\<close> calls in a row, each with its own element size, name and
  target location: first for any outcome of the call in line 67, then as the header has it.\<close>
fun get_inputs_with ::
  "(Batch \<Rightarrow> string \<Rightarrow> exn + size_t list) \<Rightarrow> ProcessTensor_fn \<Rightarrow>
   (size_t \<times> string \<times> MemoryType \<times> device_id_t) list \<Rightarrow> Batch \<Rightarrow> Batch" where
  "get_inputs_with shape_call ProcessTensor [] b = b"
| "get_inputs_with shape_call ProcessTensor ((sizeof_T, name, memory_type, device_id) # rest) b =
     get_inputs_with shape_call ProcessTensor rest
       (snd (get_input_with shape_call ProcessTensor sizeof_T name memory_type device_id b))"

definition get_inputs ::
  "ProcessTensor_fn \<Rightarrow> (size_t \<times> string \<times> MemoryType \<times> device_id_t) list \<Rightarrow> Batch \<Rightarrow> Batch" where
  "get_inputs ProcessTensor cs b = get_inputs_with input_shape_call_line_67 ProcessTensor cs b"

subsection \<open>Concrete batches for the examples\<close>

definition request_x :: "size_t list \<Rightarrow> TRITONBACKEND_Request" where
  "request_x s = \<lparr>input_shape = (\<lambda>name. if name = ''x'' then s else [])\<rparr>"

definition model_y :: ModelState where
  "model_y = \<lparr>FindBatchOutput = (\<lambda>name. if name = ''y'' then Some [2] else None)\<rparr>"

definition instance0 :: ModelInstanceState where
  "instance0 = \<lparr>EnablePinnedInput = False, EnablePinnedOutput = False, config_max_batch_size = 8\<rparr>"

text \<open>An allocator that never fails.\<close>
definition always_allocate :: "size_t \<Rightarrow> MemoryType \<Rightarrow> device_id_t \<Rightarrow> bool" where
  "always_allocate n m d = True"

text \<open>A batch over the given shards of input x, as the constructor builds it on stream 7.\<close>
definition batch_of :: "size_t list list \<Rightarrow> Batch" where
  "batch_of shards =
     \<lparr>batch_model_state = model_y,
      batch_instance_state = instance0,
      batch_requests = map request_x shards,
      batch_responses = map Some [0 ..< length shards],
      batch_collector = \<lparr>pinned_input = False, calls = []\<rparr>,
      batch_responder = \<lparr>responder_max_batch_size = 8, pinned_output = False, need_sync = False\<rparr>,
      batch_stream = 7,
      sync_log = []\<rparr>"

text \<open>A collector that gathers at the address 4096 in the requested location and reports
  the byte length it was asked for.\<close>
definition collect_as_asked :: ProcessTensor_fn where
  "collect_as_asked c reqs resps args init =
     (init\<lparr>dst_buffer := 4096, dst_buffer_byte_size := buffer_byte_size args\<rparr>, [])"


text \<open>A collector that leaves the data in host memory whatever was asked.\<close>
definition collect_on_host :: ProcessTensor_fn where
  "collect_on_host c reqs resps args init =
     (init\<lparr>dst_buffer := 4096, dst_buffer_byte_size := buffer_byte_size args,
           dst_memory_type := HostMemory\<rparr>, [])"

text \<open>The batch of three requests after an output tensor has scattered through the shared
  responder and enqueued a copy.\<close>
definition batch_scattered :: Batch where
  "batch_scattered =
     (batch_of [[2,4],[1,4],[3,4]])
       \<lparr>batch_responder := responder_ProcessTensor True (batch_responder (batch_of [[2,4],[1,4],[3,4]]))\<rparr>"

section \<open>Properties\<close>

lemma reduce_multiplies_prod: "reduce_multiplies ds acc = acc * prod_list ds"
  by (induction ds arbitrary: acc) (simp_all add: mult.assoc)

lemma length_null_slots: "length (null_slots failed rs) = length rs"
  by (simp add: null_slots_def)



subsection \<open>Facts about the constructor and shape resolution\<close>

lemma get_input_shape_Nil: "batch_requests b = [] \<Longrightarrow> get_input_shape b name = Inr []"
  by (simp add: get_input_shape_def)

lemma Batch_init_requests:
  "Batch_init response_new ms ist raw_requests count os mbs st = Inr b \<Longrightarrow>
   batch_requests b = take (unat count) raw_requests"
  by (auto simp: Batch_init_def Let_def split: sum.splits)

lemma Batch_init_empty: "Batch_init (\<lambda>i. Some i) model_y instance0 [] 0 [] 8 7 = Inr (batch_of [])"
  by (simp add: Batch_init_def construct_responses_def batch_of_def instance0_def)

lemma Batch_init_fresh:
  "Batch_init response_new ms ist raw_requests count os mbs st = Inr b \<Longrightarrow>
   need_sync (batch_responder b) = False \<and> sync_log b = [] \<and> calls (batch_collector b) = []"
  by (auto simp: Batch_init_def Let_def split: sum.splits)

lemma Batch_init_batch3:
  "Batch_init (\<lambda>i. Some i) model_y instance0 [request_x [2,4], request_x [1,4], request_x [3,4]] 3 [] 8 7
     = Inr (batch_of [[2,4],[1,4],[3,4]])"
  by (simp add: Batch_init_def construct_responses_def batch_of_def instance0_def)

lemma length_construct_responses:
  "construct_responses response_new requests = Inr rs \<Longrightarrow> length rs = length requests"
  by (auto simp: construct_responses_def Let_def split: if_splits)

lemma Batch_init_responses:
  "Batch_init response_new ms ist raw_requests count os mbs st = Inr b \<Longrightarrow>
   length (batch_responses b) = length (batch_requests b)"
  by (auto simp: Batch_init_def Let_def length_construct_responses split: sum.splits)

lemma shape_batch3: "get_input_shape (batch_of [[2,4],[1,4],[3,4]]) ''x'' = Inr [6,4]"
  by (simp add: get_input_shape_def batch_of_def get_triton_input_shape_def input_shapes_def
      request_x_def non_batch_dims_def batch_axis_def)

subsection \<open>Facts about the calls as written\<close>

lemma input_shape_call_line_67_rejected: "input_shape_call_line_67 b name = Inl NoMatchingFunction"
  by (simp add: input_shape_call_line_67_def)

lemma output_shape_call_line_102_rejected: "output_shape_call_line_102 b name = Inl NoMatchingFunction"
  by (simp add: output_shape_call_line_102_def)

lemma get_input_no_instance:
  "get_input ProcessTensor sizeof_T name mt dev b = (Inl NoMatchingFunction, b)"
  by (simp add: get_input_def get_input_with_def input_shape_call_line_67_rejected)

lemma get_output_no_instance:
  "get_output can_allocate name mt dev b = (Inl NoMatchingFunction, b)"
  by (simp add: get_output_def get_output_with_def output_shape_call_line_102_rejected)

subsection \<open>Facts about the bodies and \<open>finalize\<close>\<close>

lemma get_input_with_resolved:
  assumes "shape_call b name = Inr shp"
  shows "get_input_with shape_call PT sizeof_T name mt dev b =
    (let reply = collector_reply PT sizeof_T shp name mt dev b;
         b' = b\<lparr>batch_collector := (batch_collector b)\<lparr>calls := calls (batch_collector b) @ [gather_args sizeof_T shp name mt dev]\<rparr>,
                batch_responses := null_slots (snd reply) (batch_responses b)\<rparr>
     in if dst_memory_type (fst reply) = mt \<and> dst_memory_type_id (fst reply) = dev
        then (Inr \<lparr>shape = shp, buffer = NonOwning (dst_buffer (fst reply)) (dst_buffer_byte_size (fst reply)) mt (batch_stream b)\<rparr>, b')
        else (Inl (TritonException Internal ''data collected in wrong location''), b'))"
  using assms by (auto simp: get_input_with_def Let_def)

lemma get_input_with_unresolved:
  "shape_call b name = Inl e \<Longrightarrow> get_input_with shape_call PT sizeof_T name mt dev b = (Inl e, b)"
  by (simp add: get_input_with_def)

lemma get_input_with_frame:
  "batch_responder (snd (get_input_with shape_call PT sizeof_T name mt dev b)) = batch_responder b"
  "sync_log (snd (get_input_with shape_call PT sizeof_T name mt dev b)) = sync_log b"
  "batch_requests (snd (get_input_with shape_call PT sizeof_T name mt dev b)) = batch_requests b"
  "length (batch_responses (snd (get_input_with shape_call PT sizeof_T name mt dev b))) =
     length (batch_responses b)"
  by (simp_all add: get_input_with_def Let_def length_null_slots split: sum.splits)

lemma get_inputs_with_frame:
  "batch_responder (get_inputs_with shape_call PT cs b) = batch_responder b \<and>
   sync_log (get_inputs_with shape_call PT cs b) = sync_log b"
  by (induction shape_call PT cs b rule: get_inputs_with.induct) (simp_all add: get_input_with_frame)

lemma get_output_with_same: "snd (get_output_with shape_call can_allocate name mt dev b) = b"
  by (simp add: get_output_with_def Let_def split: sum.splits)

lemma finalize_keeps:
  "batch_requests (snd (finalize failed st b)) = batch_requests b"
  "batch_collector (snd (finalize failed st b)) = batch_collector b"
  "batch_model_state (snd (finalize failed st b)) = batch_model_state b"
  "batch_instance_state (snd (finalize failed st b)) = batch_instance_state b"
  "batch_stream (snd (finalize failed st b)) = batch_stream b"
  "batch_responder (snd (finalize failed st b)) = batch_responder b"
  "batch_responses (snd (finalize failed st b)) = null_slots failed (batch_responses b)"
  by (simp_all add: finalize_def Let_def)

lemma finalize_lengths:
  "length (batch_responses (snd (finalize failed sync_status b))) = length (batch_responses b)"
  by (simp add: finalize_def Let_def length_null_slots)


subsection \<open>Facts about \<open>size_t\<close> sums, narrowing and the shape resolver\<close>


lemma transform_narrow_nonneg:
  "\<forall>c\<in>set dims. 0 \<le> sint c \<Longrightarrow> transform_narrow dims = Inr dims"
  by (induction dims) (simp_all add: narrow_def)

lemma get_output_shape_ignores_requests:
  "get_output_shape (b\<lparr>batch_requests := rs\<rparr>) name = get_output_shape b name"
  by (simp add: get_output_shape_def)

lemma first_mismatch_None:
  "(first_mismatch base ss k = None) = (\<forall>s\<in>set ss. non_batch_dims s = base)"
  by (induction ss arbitrary: k) auto

lemma first_mismatch_Some:
  "first_mismatch base ss k = Some i \<Longrightarrow>
   k \<le> i \<and> i < k + length ss \<and> non_batch_dims (ss ! (i - k)) \<noteq> base"
proof (induction ss arbitrary: k)
  case Nil
  then show ?case by simp
next
  case (Cons s ss)
  show ?case
  proof (cases "non_batch_dims s = base")
    case True
    with Cons.prems have "first_mismatch base ss (Suc k) = Some i" by simp
    from Cons.IH [OF this] show ?thesis by (auto simp: nth_Cons')
  next
    case False
    with Cons.prems show ?thesis by simp
  qed
qed


lemma resolver_disagree:
  assumes "r \<in> set requests"
    and "non_batch_dims (input_shape r name) \<noteq> non_batch_dims (input_shape (hd requests) name)"
  shows "\<exists>i<length requests. get_triton_input_shape requests name = Inl (IncompatibleShape i) \<and>
           non_batch_dims (input_shape (requests ! i) name) \<noteq>
           non_batch_dims (input_shape (hd requests) name)"
proof -
  from assms(1) obtain r0 rs where rq: "requests = r0 # rs" by (cases requests) auto
  let ?base = "non_batch_dims (input_shape r0 name)"
  let ?shapes = "map (\<lambda>r. input_shape r name) (r0 # rs)"
  have "first_mismatch ?base ?shapes 0 \<noteq> None"
    unfolding first_mismatch_None using assms rq by auto
  then obtain i where i: "first_mismatch ?base ?shapes 0 = Some i" by auto
  from first_mismatch_Some [OF i]
  have b: "i < length requests" and d: "non_batch_dims (?shapes ! i) \<noteq> ?base"
    by (simp_all add: rq)
  from b have "?shapes ! i = input_shape (requests ! i) name"
    unfolding rq by (simp only: nth_map length_map)
  with d have "non_batch_dims (input_shape (requests ! i) name) \<noteq> ?base" by simp
  moreover have "get_triton_input_shape requests name = Inl (IncompatibleShape i)"
    using i by (simp add: get_triton_input_shape_def input_shapes_def rq)
  ultimately show ?thesis using b by (auto simp: rq)
qed

lemma get_input_shape_disagree:
  assumes "r \<in> set (batch_requests b)" and "r' \<in> set (batch_requests b)"
    and "non_batch_dims (input_shape r name) \<noteq> non_batch_dims (input_shape r' name)"
  shows "\<exists>i<length (batch_requests b). get_input_shape b name = Inl (IncompatibleShape i)"
proof -
  let ?base = "non_batch_dims (input_shape (hd (batch_requests b)) name)"
  from assms(3) have "non_batch_dims (input_shape r name) \<noteq> ?base \<or>
                      non_batch_dims (input_shape r' name) \<noteq> ?base" by auto
  then obtain q where "q \<in> set (batch_requests b)" "non_batch_dims (input_shape q name) \<noteq> ?base"
    using assms(1,2) by blast
  from resolver_disagree [OF this] obtain i where
    i: "i < length (batch_requests b)"
       "get_triton_input_shape (batch_requests b) name = Inl (IncompatibleShape i)"
    by blast
  from assms(1) have "batch_requests b \<noteq> []" by auto
  with i(2) have "get_input_shape b name = Inl (IncompatibleShape i)"
    by (simp add: get_input_shape_def)
  with i(1) show ?thesis by blast
qed

lemma shape_batch_disagreeing:
  "get_input_shape (batch_of [[2,4],[1,5]]) ''x'' = Inl (IncompatibleShape 1)"
  by (simp add: get_input_shape_def batch_of_def get_triton_input_shape_def input_shapes_def
      request_x_def non_batch_dims_def)

lemma output_shape_batch3: "get_output_shape (batch_of [[2,4],[1,4],[3,4]]) ''y'' = Inr [2]"
  by (simp add: get_output_shape_def batch_of_def model_y_def narrow_def)

lemma batch_of_fields:
  "batch_stream (batch_of shards) = 7"
  "calls (batch_collector (batch_of shards)) = []"
  "need_sync (batch_responder (batch_of shards)) = False"
  by (simp_all add: batch_of_def)

lemma body_batch3:
  "fst (get_input_with get_input_shape collect_as_asked 4 ''x'' DeviceMemory dev
          (batch_of [[2,4],[1,4],[3,4]])) =
     Inr \<lparr>shape = [6,4], buffer = NonOwning 4096 96 DeviceMemory 7\<rparr>"
  by (simp add: get_input_with_resolved [where shape_call = get_input_shape, OF shape_batch3] Let_def collector_reply_def
      collect_as_asked_def initial_outs_def gather_args_def batch_of_fields)

subsection \<open>C9: an empty request list resolves to the empty shape\<close>

text \<open>
  C9. For every batch constructed from an empty request list (an empty array, or a count
  of zero), the batch holds no request, and input shape resolution returns the empty shape
  sequence for every name; it does not raise.
\<close>
theorem empty_request_list_empty_shape:
  assumes "Batch_init response_new ms ist raw_requests count os mbs st = Inr b"
    and "raw_requests = [] \<or> count = 0"
  shows "batch_requests b = [] \<and> get_input_shape b name = Inr []"
proof -
  from assms(2) have "take (unat count) raw_requests = []" by auto
  with Batch_init_requests [OF assms(1)] have "batch_requests b = []" by simp
  then show ?thesis by (simp add: get_input_shape_Nil)
qed

theorem empty_request_list_empty_shape_witness:
  "Batch_init (\<lambda>i. Some i) model_y instance0 [] 0 [] 8 7 = Inr (batch_of []) \<and>
   batch_requests (batch_of []) = [] \<and> get_input_shape (batch_of []) ''x'' = Inr []"
  using empty_request_list_empty_shape [OF Batch_init_empty, of "''x''"] Batch_init_empty by simp

subsection \<open>C3: when \<open>finalize\<close> synchronizes\<close>

text \<open>
  C3. For every batch, \<open>finalize\<close> calls \<open>cudaStreamSynchronize\<close> on the batch's stream
  exactly when the responder's \<open>Finalize\<close> reports that asynchronous work was enqueued,
  and otherwise calls it not at all. In particular, on a batch as the constructor built
  it, after any number of \<open>get_input\<close> calls and no output declared, the responder
  reports nothing and \<open>finalize\<close> does not synchronize; this holds of \<open>get_input\<close> as
  the header has it and of its body under every outcome of the call in line 67.
\<close>
theorem finalize_synchronizes_iff_reported:
  "sync_log (snd (finalize failed sync_status b)) =
     (if responder_Finalize (batch_responder b) then sync_log b @ [batch_stream b] else sync_log b) \<and>
   (Batch_init response_new ms ist raw_requests count os mbs st = Inr b0 \<longrightarrow>
      \<not> responder_Finalize (batch_responder (get_inputs PT cs b0)) \<and>
      sync_log (snd (finalize failed sync_status (get_inputs PT cs b0))) = [] \<and>
      \<not> responder_Finalize (batch_responder (get_inputs_with shape_call PT cs b0)) \<and>
      sync_log (snd (finalize failed sync_status (get_inputs_with shape_call PT cs b0))) = [])"
proof
  show "sync_log (snd (finalize failed sync_status b)) =
     (if responder_Finalize (batch_responder b) then sync_log b @ [batch_stream b] else sync_log b)"
    by (simp add: finalize_def Let_def)
  show "Batch_init response_new ms ist raw_requests count os mbs st = Inr b0 \<longrightarrow>
      \<not> responder_Finalize (batch_responder (get_inputs PT cs b0)) \<and>
      sync_log (snd (finalize failed sync_status (get_inputs PT cs b0))) = [] \<and>
      \<not> responder_Finalize (batch_responder (get_inputs_with shape_call PT cs b0)) \<and>
      sync_log (snd (finalize failed sync_status (get_inputs_with shape_call PT cs b0))) = []"
  proof
    assume "Batch_init response_new ms ist raw_requests count os mbs st = Inr b0"
    note fresh = Batch_init_fresh [OF this]
    have any: "\<not> responder_Finalize (batch_responder (get_inputs_with sc PT cs b0)) \<and>
      sync_log (snd (finalize failed sync_status (get_inputs_with sc PT cs b0))) = []" for sc
    proof -
      from fresh get_inputs_with_frame [of sc PT cs b0]
      have "\<not> need_sync (batch_responder (get_inputs_with sc PT cs b0))"
        "sync_log (get_inputs_with sc PT cs b0) = []"
        by simp_all
      then show ?thesis by (simp add: finalize_def Let_def responder_Finalize_def)
    qed
    from any [of input_shape_call_line_67] any [of shape_call]
    show "\<not> responder_Finalize (batch_responder (get_inputs PT cs b0)) \<and>
      sync_log (snd (finalize failed sync_status (get_inputs PT cs b0))) = [] \<and>
      \<not> responder_Finalize (batch_responder (get_inputs_with shape_call PT cs b0)) \<and>
      sync_log (snd (finalize failed sync_status (get_inputs_with shape_call PT cs b0))) = []"
      by (simp add: get_inputs_def)
  qed
qed

theorem finalize_synchronizes_iff_reported_witness:
  "responder_Finalize (batch_responder batch_scattered) \<and>
   sync_log (snd (finalize [] 0 batch_scattered)) = [7] \<and>
   Batch_init (\<lambda>i. Some i) model_y instance0 [request_x [2,4], request_x [1,4], request_x [3,4]] 3 [] 8 7
     = Inr (batch_of [[2,4],[1,4],[3,4]]) \<and>
   sync_log (snd (finalize [] 0
      (get_inputs_with get_input_shape collect_as_asked [(4, ''x'', DeviceMemory, 0)]
         (batch_of [[2,4],[1,4],[3,4]])))) = []"
proof -
  have r: "responder_Finalize (batch_responder batch_scattered)"
    by (simp add: batch_scattered_def responder_Finalize_def responder_ProcessTensor_def)
  have s: "sync_log batch_scattered = []" "batch_stream batch_scattered = 7"
    by (simp_all add: batch_scattered_def batch_of_def)
  show ?thesis
    using finalize_synchronizes_iff_reported [of "[]" 0 batch_scattered "\<lambda>i. Some i" model_y instance0
        "[request_x [2,4], request_x [1,4], request_x [3,4]]" 3 "[]" 8 7 "batch_of [[2,4],[1,4],[3,4]]"
        collect_as_asked "[(4, ''x'', DeviceMemory, 0)]" get_input_shape]
      r s Batch_init_batch3
    by simp
qed

subsection \<open>C7: one response slot per request\<close>

text \<open>
  C7. A batch constructed from \<open>count\<close> request handles holds \<open>count\<close> requests and
  \<open>count\<close> response slots; and when a batch holds as many response slots as requests,
  it still does after \<open>get_input\<close>, \<open>get_output\<close>, \<open>stream\<close> (which only reads) and
  \<open>finalize\<close>, with the number of requests unchanged. For \<open>get_input\<close> and
  \<open>get_output\<close> this holds as the header has them and of their bodies under every
  outcome of the calls in lines 67 and 102.
\<close>
theorem responses_match_requests:
  "(unat count \<le> length raw_requests \<and>
    Batch_init response_new ms ist raw_requests count os mbs st = Inr b0 \<longrightarrow>
      length (batch_requests b0) = unat count \<and> length (batch_responses b0) = unat count) \<and>
   (length (batch_responses b) = length (batch_requests b) \<longrightarrow>
      length (batch_responses (snd (get_input PT sizeof_T name mt dev b))) =
        length (batch_requests (snd (get_input PT sizeof_T name mt dev b))) \<and>
      length (batch_requests (snd (get_input PT sizeof_T name mt dev b))) = length (batch_requests b) \<and>
      length (batch_responses (snd (get_output can_allocate name mt dev b))) =
        length (batch_requests (snd (get_output can_allocate name mt dev b))) \<and>
      length (batch_requests (snd (get_output can_allocate name mt dev b))) = length (batch_requests b) \<and>
      stream b = batch_stream b \<and>
      length (batch_responses (snd (finalize failed sync_status b))) =
        length (batch_requests (snd (finalize failed sync_status b))) \<and>
      length (batch_requests (snd (finalize failed sync_status b))) = length (batch_requests b) \<and>
      length (batch_responses (snd (get_input_with shape_call PT sizeof_T name mt dev b))) =
        length (batch_requests (snd (get_input_with shape_call PT sizeof_T name mt dev b))) \<and>
      length (batch_requests (snd (get_input_with shape_call PT sizeof_T name mt dev b))) =
        length (batch_requests b) \<and>
      length (batch_responses (snd (get_output_with out_shape_call can_allocate name mt dev b))) =
        length (batch_requests (snd (get_output_with out_shape_call can_allocate name mt dev b))) \<and>
      length (batch_requests (snd (get_output_with out_shape_call can_allocate name mt dev b))) =
        length (batch_requests b))"
proof (intro conjI impI)
  assume a: "unat count \<le> length raw_requests \<and>
    Batch_init response_new ms ist raw_requests count os mbs st = Inr b0"
  then show n: "length (batch_requests b0) = unat count"
    using Batch_init_requests [of response_new ms ist raw_requests count os mbs st b0] by simp
  from a show "length (batch_responses b0) = unat count"
    using Batch_init_responses [of response_new ms ist raw_requests count os mbs st b0] n by simp
qed (simp_all add: get_input_def get_output_def get_input_with_frame get_output_with_same
    finalize_lengths finalize_keeps length_null_slots stream_def)

theorem responses_match_requests_witness:
  "unat (3 :: request_size_t) \<le> length [request_x [2,4], request_x [1,4], request_x [3,4]] \<and>
   Batch_init (\<lambda>i. Some i) model_y instance0 [request_x [2,4], request_x [1,4], request_x [3,4]] 3 [] 8 7
     = Inr (batch_of [[2,4],[1,4],[3,4]]) \<and>
   length (batch_responses (batch_of [[2,4],[1,4],[3,4]])) = 3 \<and>
   length (batch_responses (snd (get_input_with get_input_shape collect_as_asked 4 ''x'' DeviceMemory 0
      (batch_of [[2,4],[1,4],[3,4]])))) = 3 \<and>
   length (batch_responses (snd (finalize [1] 0 (batch_of [[2,4],[1,4],[3,4]])))) = 3"
proof -
  have l: "length (batch_requests (batch_of [[2,4],[1,4],[3,4]])) = 3"
    by (simp add: batch_of_def)
  show ?thesis
    using responses_match_requests [of 3 "[request_x [2,4], request_x [1,4], request_x [3,4]]"
        "\<lambda>i. Some i" model_y instance0 "[]" 8 7 "batch_of [[2,4],[1,4],[3,4]]"
        "batch_of [[2,4],[1,4],[3,4]]" collect_as_asked 4 "''x''" DeviceMemory 0 always_allocate "[1]" 0
        get_input_shape get_output_shape]
      Batch_init_batch3 l
    by simp
qed

subsection \<open>C1: the unified shape of a named input\<close>




subsection \<open>C6: calls after \<open>finalize\<close>\<close>




subsection \<open>C10: the byte length asked for an empty batch\<close>

text \<open>
  C10 does not hold of the header, by the call in line 67. On a batch with zero requests
  and a 4-byte element type, \<open>get_input\<close> ends at that call, and the collector has been
  asked for nothing. What C10 says is what the rest of the header computes: the member
  \<open>get_input_shape\<close> gives the empty shape, line 68 makes 4 bytes of it, and the body
  asks the collector for 4 bytes once the call reaches the member.
\<close>
theorem get_input_empty_batch_requests_nothing:
  "get_input collect_as_asked 4 ''x'' DeviceMemory 0 (batch_of []) =
     (Inl NoMatchingFunction, batch_of []) \<and>
   calls (batch_collector (snd (get_input collect_as_asked 4 ''x'' DeviceMemory 0 (batch_of [])))) = [] \<and>
   get_input_shape (batch_of []) ''x'' = Inr [] \<and>
   gather_args 4 [] ''x'' DeviceMemory 0 =
     \<lparr>input_name = ''x'', buffer_byte_size = 4, allowed_input_types = [(DeviceMemory, 0)]\<rparr> \<and>
   calls (batch_collector (snd (get_input_with get_input_shape collect_as_asked 4 ''x'' DeviceMemory 0
      (batch_of [])))) =
     [\<lparr>input_name = ''x'', buffer_byte_size = 4, allowed_input_types = [(DeviceMemory, 0)]\<rparr>]"
proof -
  have s: "get_input_shape (batch_of []) ''x'' = Inr []"
    by (simp add: get_input_shape_def batch_of_def)
  have g: "gather_args 4 [] ''x'' DeviceMemory 0 =
     \<lparr>input_name = ''x'', buffer_byte_size = 4, allowed_input_types = [(DeviceMemory, 0)]\<rparr>"
    by (simp add: gather_args_def)
  show ?thesis
    by (simp add: get_input_no_instance s g get_input_with_resolved [where shape_call = get_input_shape, OF s] Let_def batch_of_fields)
qed

theorem get_input_empty_batch_requests_nothing_witness:
  "get_input collect_as_asked 4 ''x'' DeviceMemory 0 (batch_of []) =
     (Inl NoMatchingFunction, batch_of [])"
  using get_input_empty_batch_requests_nothing by (rule conjunct1)

subsection \<open>C5: requests that disagree on a non-batch dimension\<close>

text \<open>
  C5 does not hold of the header, by the call in line 67. For two requests with shapes
  [2, 4] and [1, 5], \<open>get_input\<close> ends at that call and not with \<open>IncompatibleShape\<close>.
  What C5 says is what the member and the body do: \<open>get_input_shape\<close> fails with
  \<open>IncompatibleShape\<close> naming request 1, and the body passes that failure on, leaving
  the batch as it was, once the call reaches the member.
\<close>
theorem get_input_disagreeing_shapes_no_instance:
  "fst (get_input collect_as_asked 4 ''x'' DeviceMemory 0 (batch_of [[2,4],[1,5]])) =
     Inl NoMatchingFunction \<and>
   get_input_shape (batch_of [[2,4],[1,5]]) ''x'' = Inl (IncompatibleShape 1) \<and>
   get_input_with get_input_shape collect_as_asked 4 ''x'' DeviceMemory 0 (batch_of [[2,4],[1,5]]) =
     (Inl (IncompatibleShape 1), batch_of [[2,4],[1,5]])"
  by (simp add: get_input_no_instance shape_batch_disagreeing
      get_input_with_unresolved [where shape_call = get_input_shape, OF shape_batch_disagreeing])

theorem get_input_disagreeing_shapes_no_instance_witness:
  "fst (get_input collect_as_asked 4 ''x'' DeviceMemory 0 (batch_of [[2,4],[1,5]])) =
     Inl NoMatchingFunction"
  using get_input_disagreeing_shapes_no_instance by (rule conjunct1)

subsection \<open>C4: the location check of \<open>get_input\<close>\<close>

text \<open>
  C4 does not hold of the header, by the call in line 67. For three requests and a
  collector that leaves the data in host memory although device memory was requested,
  \<open>get_input\<close> ends at that call, before the collector is called, and not with the
  wrong-location error. The check the claim describes is in the body: once the call
  reaches the member, the body throws \<open>TritonException(Error::Internal, "data collected
  in wrong location")\<close> for that collector, and for a collector that reports the requested
  location it returns a tensor over a buffer of the requested memory type, built without
  any device id (device 3 was requested; it is not among the constructor's arguments).
\<close>
theorem get_input_wrong_location_no_instance:
  "fst (get_input collect_on_host 4 ''x'' DeviceMemory 0 (batch_of [[2,4],[1,4],[3,4]])) =
     Inl NoMatchingFunction \<and>
   calls (batch_collector (snd (get_input collect_on_host 4 ''x'' DeviceMemory 0
      (batch_of [[2,4],[1,4],[3,4]])))) = [] \<and>
   fst (get_input_with get_input_shape collect_on_host 4 ''x'' DeviceMemory 0
      (batch_of [[2,4],[1,4],[3,4]])) =
     Inl (TritonException Internal ''data collected in wrong location'') \<and>
   fst (get_input_with get_input_shape collect_as_asked 4 ''x'' DeviceMemory 3
      (batch_of [[2,4],[1,4],[3,4]])) =
     Inr \<lparr>shape = [6,4], buffer = NonOwning 4096 96 DeviceMemory 7\<rparr>"
proof -
  have "fst (get_input_with get_input_shape collect_on_host 4 ''x'' DeviceMemory 0
      (batch_of [[2,4],[1,4],[3,4]])) =
     Inl (TritonException Internal ''data collected in wrong location'')"
    by (simp add: get_input_with_resolved [where shape_call = get_input_shape, OF shape_batch3] Let_def collector_reply_def
        collect_on_host_def initial_outs_def)
  then show ?thesis
    by (simp add: get_input_no_instance body_batch3 batch_of_fields)
qed

theorem get_input_wrong_location_no_instance_witness:
  "fst (get_input collect_on_host 4 ''x'' DeviceMemory 0 (batch_of [[2,4],[1,4],[3,4]])) =
     Inl NoMatchingFunction"
  using get_input_wrong_location_no_instance by (rule conjunct1)

subsection \<open>C8: shape and buffer length of a gathered tensor\<close>



subsection \<open>C2: the shape of an output tensor\<close>

text \<open>
  C2 does not hold of the header. By the call in line 102, \<open>get_output\<close> returns no
  tensor. The call hands the request range to \<open>get_output_shape\<close>, but the member takes
  the name alone and gives the shape the model metadata has for it: [2] for output y,
  for the batch whose input resolves to [6, 4] as for a batch of a single request of
  shape [2, 4], and never [6, 2].
\<close>
theorem get_output_no_instance_and_unscaled:
  "fst (get_output always_allocate ''y'' DeviceMemory 0 (batch_of [[2,4],[1,4],[3,4]])) =
     Inl NoMatchingFunction \<and>
   get_input_shape (batch_of [[2,4],[1,4],[3,4]]) ''x'' = Inr [6,4] \<and>
   get_output_shape (batch_of [[2,4],[1,4],[3,4]]) ''y'' = Inr [2] \<and>
   get_output_shape (batch_of [[2,4]]) ''y'' = Inr [2]"
proof -
  have "get_output_shape (batch_of [[2,4]]) ''y'' = Inr [2]"
    by (simp add: get_output_shape_def batch_of_def model_y_def narrow_def)
  then show ?thesis
    by (simp add: get_output_no_instance shape_batch3 output_shape_batch3)
qed

theorem get_output_no_instance_and_unscaled_witness:
  "fst (get_output always_allocate ''y'' DeviceMemory 0 (batch_of [[2,4],[1,4],[3,4]])) =
     Inl NoMatchingFunction"
  using get_output_no_instance_and_unscaled by (rule conjunct1)

end
